theory Spec2Isabelle
  imports Main
begin

section \<open>Strings, paths and console text\<close>

type_synonym path = string

text \<open>
  An exception caught by \<^verbatim>\<open>except Exception as e\<close> is represented by the text that
  \<^verbatim>\<open>{e}\<close> puts into an f-string, that is \<^verbatim>\<open>str(e)\<close>.
\<close>

type_synonym message = string

definition newline :: char where
  "newline = CHR 0x0A"

text \<open>Python's \<^verbatim>\<open>str\<close> of a non-negative integer: its decimal digits.\<close>

fun str_nat :: "nat \<Rightarrow> string" where
  "str_nat n =
     (if n < 10 then [''0123456789'' ! n]
      else str_nat (n div 10) @ [''0123456789'' ! (n mod 10)])"

declare str_nat.simps [simp del]

text \<open>Python's \<^verbatim>\<open>str\<close> of a pair of integers, as \<^verbatim>\<open>{df.shape}\<close> prints it.\<close>

definition str_shape :: "nat \<times> nat \<Rightarrow> string" where
  "str_shape sh = ''('' @ str_nat (fst sh) @ '', '' @ str_nat (snd sh) @ '')''"

section \<open>The tabular frame\<close>

text \<open>
  The data model of the specification: an ordered sequence of named columns and an
  ordered sequence of rows. The type of a cell is left open.
\<close>

record 'c frame =
  columns :: "string list"
  rows :: "'c list list"

text \<open>
  Modelled from the spec: the attribute \<^verbatim>\<open>shape\<close> and the method \<^verbatim>\<open>head\<close> belong to the
  tabular-data library, which is not part of the sources. The shape is
  (row count, column count); \<^verbatim>\<open>head()\<close> keeps the first five rows, or all rows if
  there are fewer than five.
\<close>

definition shape :: "'c frame \<Rightarrow> nat \<times> nat" where
  "shape df = (length (rows df), length (columns df))"

definition head :: "'c frame \<Rightarrow> 'c frame" where
  "head df = df\<lparr>rows := take 5 (rows df)\<rparr>"

section \<open>The environment of a script\<close>

text \<open>
  Both scripts delegate to functions of the operating system and of the tabular-data
  library. Those functions are parameters of the model. The type \<open>'w\<close> is the state of the
  world outside the process (the file system). A reader returns either the frame or the
  message of the exception it raises; the writer returns the new world and, when it
  raises, the message. The writer may change the world even when it raises.
  All exceptions of the environment are instances of \<^verbatim>\<open>Exception\<close>.
\<close>

record ('w, 'c) pandas =
  path_exists :: "'w \<Rightarrow> path \<Rightarrow> bool"
  read_csv :: "'w \<Rightarrow> path \<Rightarrow> message + 'c frame"
  to_excel :: "'c frame \<Rightarrow> path \<Rightarrow> bool \<Rightarrow> 'w \<Rightarrow> 'w \<times> message option"
  read_excel :: "'w \<Rightarrow> path \<Rightarrow> message + 'c frame"
  render :: "'c frame \<Rightarrow> string"

text \<open>
  Every call into the environment is recorded, in order, so that "no read" and
  "no write" are statements about a run.
\<close>

datatype 'c call =
    Exists path
  | ReadCsv path
  | ToExcel "'c frame" path bool
  | ReadExcel path

record ('w, 'c) state =
  world :: 'w
  stdout :: "string list"
  calls :: "'c call list"

text \<open>
  A piece of Python code is a function from the state to a result and a new state. The
  result is \<open>Inl e\<close> when the code raises the exception \<open>e\<close>, and \<open>Inr v\<close> when it completes
  with the value \<open>v\<close>.
\<close>

type_synonym ('a, 'w, 'c) prog = "('w, 'c) state \<Rightarrow> (message + 'a) \<times> ('w, 'c) state"

definition py_return :: "'a \<Rightarrow> ('a, 'w, 'c) prog" where
  "py_return v s = (Inr v, s)"

definition py_bind :: "('a, 'w, 'c) prog \<Rightarrow> ('a \<Rightarrow> ('b, 'w, 'c) prog) \<Rightarrow> ('b, 'w, 'c) prog" where
  "py_bind m k s = (case m s of (Inl e, s') \<Rightarrow> (Inl e, s') | (Inr v, s') \<Rightarrow> k v s')"

text \<open>\<^verbatim>\<open>try: body except Exception as e: handler\<close>\<close>

definition py_try :: "('a, 'w, 'c) prog \<Rightarrow> (message \<Rightarrow> ('a, 'w, 'c) prog) \<Rightarrow> ('a, 'w, 'c) prog" where
  "py_try body handler s =
     (case body s of (Inl e, s') \<Rightarrow> handler e s' | (Inr v, s') \<Rightarrow> (Inr v, s'))"

text \<open>\<^verbatim>\<open>for x in xs: body\<close>\<close>

fun py_for :: "'a list \<Rightarrow> ('a \<Rightarrow> (unit, 'w, 'c) prog) \<Rightarrow> (unit, 'w, 'c) prog" where
  "py_for [] body = py_return ()"
| "py_for (x # xs) body = py_bind (body x) (\<lambda>_. py_for xs body)"

text \<open>\<^verbatim>\<open>print(line)\<close>: one more entry of the console. Writing to the console does not fail.\<close>

definition py_print :: "string \<Rightarrow> (unit, 'w, 'c) prog" where
  "py_print line s = (Inr (), s\<lparr>stdout := stdout s @ [line]\<rparr>)"

definition os_path_exists :: "('w, 'c) pandas \<Rightarrow> path \<Rightarrow> (bool, 'w, 'c) prog" where
  "os_path_exists L p s =
     (Inr (path_exists L (world s) p), s\<lparr>calls := calls s @ [Exists p]\<rparr>)"

definition pd_read_csv :: "('w, 'c) pandas \<Rightarrow> path \<Rightarrow> ('c frame, 'w, 'c) prog" where
  "pd_read_csv L p s = (read_csv L (world s) p, s\<lparr>calls := calls s @ [ReadCsv p]\<rparr>)"

definition df_to_excel ::
  "('w, 'c) pandas \<Rightarrow> 'c frame \<Rightarrow> path \<Rightarrow> bool \<Rightarrow> (unit, 'w, 'c) prog" where
  "df_to_excel L df p index s =
     (case to_excel L df p index (world s) of
        (w', r) \<Rightarrow>
          ((case r of Some e \<Rightarrow> Inl e | None \<Rightarrow> Inr ()),
           s\<lparr>world := w', calls := calls s @ [ToExcel df p index]\<rparr>))"

definition pd_read_excel :: "('w, 'c) pandas \<Rightarrow> path \<Rightarrow> ('c frame, 'w, 'c) prog" where
  "pd_read_excel L p s = (read_excel L (world s) p, s\<lparr>calls := calls s @ [ReadExcel p]\<rparr>)"

section \<open>The converter: csv_to_excel.py\<close>

definition csv_to_excel :: "('w, 'c) pandas \<Rightarrow> path \<Rightarrow> path \<Rightarrow> (bool, 'w, 'c) prog" where
  "csv_to_excel L csv_file excel_file =
     py_try
       (py_bind (os_path_exists L csv_file) (\<lambda>ex.
          if \<not> ex then
            py_bind (py_print (''Error: Input file '' @ csv_file @ '' does not exist''))
              (\<lambda>_. py_return False)
          else
            py_bind (pd_read_csv L csv_file) (\<lambda>df.
            py_bind (df_to_excel L df excel_file False) (\<lambda>_.
            py_bind (py_print (''Successfully converted '' @ csv_file @ '' to '' @ excel_file))
              (\<lambda>_. py_return True)))))
       (\<lambda>e. py_bind (py_print (''Error converting file: '' @ e)) (\<lambda>_. py_return False))"

text \<open>
  The script body. \<open>argv\<close> is \<^verbatim>\<open>sys.argv\<close>, the program name first. The result is the exit
  status of the process: \<^verbatim>\<open>sys.exit(1)\<close> gives 1, reaching the end of the script gives 0,
  and an exception that reaches the top level gives 1.
\<close>

definition csv_to_excel_main ::
  "('w, 'c) pandas \<Rightarrow> string list \<Rightarrow> ('w, 'c) state \<Rightarrow> int \<times> ('w, 'c) state" where
  "csv_to_excel_main L argv s =
     (if length argv \<noteq> 3 then
        (1, snd (py_print ''Usage: python csv_to_excel.py <input.csv> <output.xlsx>'' s))
      else
        let csv_file = argv ! 1; excel_file = argv ! 2 in
        (case csv_to_excel L csv_file excel_file s of
           (Inl e, s') \<Rightarrow> (1, s')
         | (Inr success, s') \<Rightarrow> if \<not> success then (1, s') else (0, s')))"

section \<open>The inspector: test_excel.py\<close>

definition test_excel_file :: "('w, 'c) pandas \<Rightarrow> path \<Rightarrow> (bool, 'w, 'c) prog" where
  "test_excel_file L file_path =
     py_try
       (py_bind (pd_read_excel L file_path) (\<lambda>df.
        py_bind (py_print ''File read successfully!'') (\<lambda>_.
        py_bind (py_print (''Shape: '' @ str_shape (shape df))) (\<lambda>_.
        py_bind (py_print ''Columns:'') (\<lambda>_.
        py_bind (py_for (columns df) (\<lambda>col. py_print (''  - '' @ col))) (\<lambda>_.
        py_bind (py_print (newline # ''First 5 rows:'')) (\<lambda>_.
        py_bind (py_print (render L (head df))) (\<lambda>_.
        py_return True))))))))
       (\<lambda>e. py_bind (py_print (''Error reading file: '' @ e)) (\<lambda>_. py_return False))"

definition test_excel_main ::
  "('w, 'c) pandas \<Rightarrow> string list \<Rightarrow> ('w, 'c) state \<Rightarrow> int \<times> ('w, 'c) state" where
  "test_excel_main L argv s =
     (if length argv \<noteq> 2 then
        (1, snd (py_print ''Usage: python test_excel.py <file.xlsx>'' s))
      else
        let file_path = argv ! 1 in
        (case test_excel_file L file_path s of
           (Inl e, s') \<Rightarrow> (1, s')
         | (Inr success, s') \<Rightarrow> if \<not> success then (1, s') else (0, s')))"

section \<open>A reference environment\<close>

text \<open>
  Modelled from the spec: the file system is not part of the sources. A path holds a
  file or nothing; a file is delimited text or a single-sheet workbook, the sheet being a
  grid of cells with the header row first; a path can be written or not (the
  specification's "permission denied").
\<close>

datatype content = Text string | Workbook "string list list"

record fsys =
  files :: "path \<Rightarrow> content option"
  writable :: "path \<Rightarrow> bool"

definition comma :: char where
  "comma = CHR '',''"

definition space :: char where
  "space = CHR '' ''"

text \<open>
  Modelled from the spec: the reader \<^verbatim>\<open>read_csv\<close> of the tabular-data library is not part
  of the sources. The specification has it "parse the file at input_path as delimited
  tabular text (comma-separated, first row as header) into a tabular frame", and names
  "malformed delimited text" a parse failure. Here a text is cut into lines (a final line
  terminator does not start another line) and each line into fields at the commas; a
  text without a header line, or with a data row whose number of fields differs from the
  header's, is malformed. Cells are kept as the strings of the text.
\<close>

fun split_on :: "char \<Rightarrow> string \<Rightarrow> string list" where
  "split_on c [] = [[]]"
| "split_on c (x # xs) =
     (if x = c then [] # split_on c xs
      else (case split_on c xs of [] \<Rightarrow> [[x]] | w # ws \<Rightarrow> (x # w) # ws))"

definition text_lines :: "string \<Rightarrow> string list" where
  "text_lines t = (let ls = split_on newline t in if last ls = [] then butlast ls else ls)"

definition parse_csv :: "string \<Rightarrow> message + string frame" where
  "parse_csv t =
     (case text_lines t of
        [] \<Rightarrow> Inl ''no header row''
      | h # rs \<Rightarrow>
          let header = split_on comma h; data = map (split_on comma) rs in
          if list_all (\<lambda>r. length r = length header) data
          then Inr \<lparr>columns = header, rows = data\<rparr>
          else Inl ''malformed row'')"

definition spec_read_csv :: "fsys \<Rightarrow> path \<Rightarrow> message + string frame" where
  "spec_read_csv fs p =
     (case files fs p of
        None \<Rightarrow> Inl (''no such file: '' @ p)
      | Some (Workbook g) \<Rightarrow> Inl ''not delimited text''
      | Some (Text t) \<Rightarrow> parse_csv t)"

text \<open>
  Modelled from the spec: the writer \<^verbatim>\<open>to_excel\<close> of the tabular-data library is not part
  of the sources. The specification has the output be "a single-sheet spreadsheet
  workbook containing the same header and rows, no index column", the converter
  "omitting any synthetic row-index column", and the file at the output path "created or
  overwritten"; a path that cannot be written is a write failure. With \<open>index\<close> set, the
  sheet gets a synthetic first column that numbers the rows.
\<close>

definition sheet_of :: "string frame \<Rightarrow> bool \<Rightarrow> string list list" where
  "sheet_of df index =
     (if index then
        ([] # columns df) # map2 (\<lambda>i r. str_nat i # r) [0..<length (rows df)] (rows df)
      else columns df # rows df)"

definition spec_to_excel :: "string frame \<Rightarrow> path \<Rightarrow> bool \<Rightarrow> fsys \<Rightarrow> fsys \<times> message option" where
  "spec_to_excel df p index fs =
     (if writable fs p
      then (fs\<lparr>files := (files fs)(p \<mapsto> Workbook (sheet_of df index))\<rparr>, None)
      else (fs, Some (''permission denied: '' @ p)))"

text \<open>
  Modelled from the spec: the reader \<^verbatim>\<open>read_excel\<close> of the tabular-data library is not
  part of the sources. The specification has the inspector "parse the file at path into
  a tabular frame", the input being a single-sheet workbook; a missing file and a file
  that is not a workbook are failures of the read step. The first row of the sheet is
  the header.
\<close>

definition frame_of_sheet :: "string list list \<Rightarrow> string frame" where
  "frame_of_sheet g =
     (case g of [] \<Rightarrow> \<lparr>columns = [], rows = []\<rparr> | h # rs \<Rightarrow> \<lparr>columns = h, rows = rs\<rparr>)"

definition spec_read_excel :: "fsys \<Rightarrow> path \<Rightarrow> message + string frame" where
  "spec_read_excel fs p =
     (case files fs p of
        None \<Rightarrow> Inl (''no such file: '' @ p)
      | Some (Text t) \<Rightarrow> Inl ''not a workbook''
      | Some (Workbook g) \<Rightarrow> Inr (frame_of_sheet g))"

text \<open>
  Modelled from the spec: the text that \<^verbatim>\<open>print\<close> shows for a frame comes from the
  tabular-data library, which is not part of the sources. The specification only says
  "rendered as a table": here one line for the header and one for each row, the cells
  separated by a space.
\<close>

fun join :: "char \<Rightarrow> string list \<Rightarrow> string" where
  "join c [] = []"
| "join c [w] = w"
| "join c (w # ws) = w @ c # join c ws"

definition spec_render :: "string frame \<Rightarrow> string" where
  "spec_render df = join newline (map (join space) (columns df # rows df))"

text \<open>
  Modelled from the spec: the reference environment puts the definitions above together;
  \<^verbatim>\<open>os.path.exists\<close> holds of a path that has a file.
\<close>

definition spec_pandas :: "(fsys, string) pandas" where
  "spec_pandas =
     \<lparr>path_exists = (\<lambda>fs p. files fs p \<noteq> None),
      read_csv = spec_read_csv,
      to_excel = spec_to_excel,
      read_excel = spec_read_excel,
      render = spec_render\<rparr>"

text \<open>A run starts with an empty console and no call made.\<close>

definition start :: "'w \<Rightarrow> ('w, 'c) state" where
  "start w = \<lparr>world = w, stdout = [], calls = []\<rparr>"

text \<open>A file system that holds the given files; every path but the listed ones is writable.\<close>

definition disk :: "(path \<times> content) list \<Rightarrow> path list \<Rightarrow> fsys" where
  "disk fl locked = \<lparr>files = map_of fl, writable = (\<lambda>p. p \<notin> set locked)\<rparr>"

text \<open>
  The text of a table: each line is the fields joined by commas, followed by the line
  terminator.
\<close>

definition csv_text :: "string list \<Rightarrow> string list list \<Rightarrow> string" where
  "csv_text header data = concat (map (\<lambda>r. join comma r @ [newline]) (header # data))"

text \<open>
  Sample files: a table of two columns and two rows, a text with a ragged row, a text
  with a header row only, and a sheet with a header row and six rows.
\<close>

definition csv_ab :: string where
  "csv_ab = ''a,b'' @ [newline] @ ''1,2'' @ [newline] @ ''3,4'' @ [newline]"

definition csv_ragged :: string where
  "csv_ragged = ''a,b'' @ [newline] @ ''1,2,3'' @ [newline]"

definition csv_header_only :: string where
  "csv_header_only = ''id,name,status'' @ [newline]"

definition book_ab :: "string list list" where
  "book_ab = [[''a'', ''b''], [''1'', ''2''], [''3'', ''4''], [''5'', ''6''], [''7'', ''8''],
              [''9'', ''10''], [''11'', ''12'']]"

section \<open>Basic facts about the combinators\<close>

lemma py_for_print:
  "py_for xs (\<lambda>x. py_print (f x)) s = (Inr (), s\<lparr>stdout := stdout s @ map f xs\<rparr>)"
  by (induction xs arbitrary: s) (simp_all add: py_return_def py_bind_def py_print_def)

lemmas prog_defs =
  py_return_def py_bind_def py_try_def py_print_def
  os_path_exists_def pd_read_csv_def df_to_excel_def pd_read_excel_def

lemmas spec_defs =
  spec_pandas_def start_def disk_def spec_read_csv_def spec_to_excel_def spec_read_excel_def
  parse_csv_def text_lines_def sheet_of_def frame_of_sheet_def spec_render_def
  newline_def comma_def space_def

section \<open>What each script does, case by case\<close>

lemma csv_to_excel_cases:
  "csv_to_excel L csv_file excel_file s =
     (if \<not> path_exists L (world s) csv_file then
        (Inr False,
         s\<lparr>stdout := stdout s @ [''Error: Input file '' @ csv_file @ '' does not exist''],
           calls := calls s @ [Exists csv_file]\<rparr>)
      else
        (case read_csv L (world s) csv_file of
           Inl e \<Rightarrow>
             (Inr False,
              s\<lparr>stdout := stdout s @ [''Error converting file: '' @ e],
                calls := calls s @ [Exists csv_file, ReadCsv csv_file]\<rparr>)
         | Inr df \<Rightarrow>
             (case to_excel L df excel_file False (world s) of
                (w', Some e) \<Rightarrow>
                  (Inr False,
                   s\<lparr>world := w',
                     stdout := stdout s @ [''Error converting file: '' @ e],
                     calls := calls s @ [Exists csv_file, ReadCsv csv_file, ToExcel df excel_file False]\<rparr>)
              | (w', None) \<Rightarrow>
                  (Inr True,
                   s\<lparr>world := w',
                     stdout := stdout s @ [''Successfully converted '' @ csv_file @ '' to '' @ excel_file],
                     calls := calls s @ [Exists csv_file, ReadCsv csv_file, ToExcel df excel_file False]\<rparr>))))"
  by (simp add: csv_to_excel_def prog_defs split: sum.splits option.splits prod.splits)

lemma test_excel_file_cases:
  "test_excel_file L file_path s =
     (case read_excel L (world s) file_path of
        Inl e \<Rightarrow>
          (Inr False,
           s\<lparr>stdout := stdout s @ [''Error reading file: '' @ e],
             calls := calls s @ [ReadExcel file_path]\<rparr>)
      | Inr df \<Rightarrow>
          (Inr True,
           s\<lparr>stdout := stdout s @
               [''File read successfully!'', ''Shape: '' @ str_shape (shape df), ''Columns:'']
               @ map (\<lambda>col. ''  - '' @ col) (columns df)
               @ [newline # ''First 5 rows:'', render L (head df)],
             calls := calls s @ [ReadExcel file_path]\<rparr>))"
  by (simp add: test_excel_file_def prog_defs py_for_print split: sum.splits)

lemma csv_to_excel_returns: "\<exists>b. fst (csv_to_excel L csv_file excel_file s) = Inr b"
  by (auto simp add: csv_to_excel_cases split: sum.splits option.splits prod.splits)

section \<open>The converter\<close>

text \<open>
  C2. When the input path does not exist, the converter returns failure, prints one
  diagnostic that names the missing path, calls neither the reader nor the writer (the
  existence test is the only call it makes), leaves the world as it was, and so creates
  no file at the output path.
\<close>

theorem missing_input_fails_without_io:
  assumes "\<not> path_exists L (world s) csv_file"
  shows "csv_to_excel L csv_file excel_file s =
           (Inr False,
            s\<lparr>stdout := stdout s @ [''Error: Input file '' @ csv_file @ '' does not exist''],
              calls := calls s @ [Exists csv_file]\<rparr>)
         \<and> world (snd (csv_to_excel L csv_file excel_file s)) = world s
         \<and> path_exists L (world (snd (csv_to_excel L csv_file excel_file s))) excel_file
             = path_exists L (world s) excel_file"
  using assms by (simp add: csv_to_excel_cases)

theorem missing_input_fails_without_io_witness:
  "\<not> path_exists spec_pandas (disk [] []) ''in.csv''
   \<and> csv_to_excel spec_pandas ''in.csv'' ''out.xlsx'' (start (disk [] [])) =
       (Inr False,
        \<lparr>world = disk [] [],
         stdout = [''Error: Input file in.csv does not exist''],
         calls = [Exists ''in.csv'']\<rparr>)
   \<and> files (world (snd (csv_to_excel spec_pandas ''in.csv'' ''out.xlsx'' (start (disk [] [])))))
        ''out.xlsx'' = None"
proof -
  let ?s = "start (disk [] []) :: (fsys, string) state"
  have h: "\<not> path_exists spec_pandas (world ?s) ''in.csv''"
    by (simp add: spec_defs)
  show ?thesis
    using h missing_input_fails_without_io [OF h, of "''out.xlsx''"]
    by (simp add: start_def disk_def)
qed

text \<open>
  C3. The converter always returns a boolean to its caller: no exception of the
  environment leaves it. A failure of the parse step, and a failure of the write step,
  each end in the result \<open>False\<close> after one line that carries the message of the
  exception.
\<close>

theorem exceptions_are_caught:
  "(\<exists>b. fst (csv_to_excel L csv_file excel_file s) = Inr b)
   \<and> (path_exists L (world s) csv_file \<and> read_csv L (world s) csv_file = Inl e \<longrightarrow>
        fst (csv_to_excel L csv_file excel_file s) = Inr False
        \<and> stdout (snd (csv_to_excel L csv_file excel_file s))
            = stdout s @ [''Error converting file: '' @ e])
   \<and> (path_exists L (world s) csv_file \<and> read_csv L (world s) csv_file = Inr df
        \<and> snd (to_excel L df excel_file False (world s)) = Some e \<longrightarrow>
        fst (csv_to_excel L csv_file excel_file s) = Inr False
        \<and> stdout (snd (csv_to_excel L csv_file excel_file s))
            = stdout s @ [''Error converting file: '' @ e])"
  by (auto simp add: csv_to_excel_cases split: sum.splits option.splits prod.splits)

theorem exceptions_are_caught_witness:
  "fst (csv_to_excel spec_pandas ''in.csv'' ''out.xlsx''
          (start (disk [(''in.csv'', Text csv_ragged)] []))) = Inr False
   \<and> stdout (snd (csv_to_excel spec_pandas ''in.csv'' ''out.xlsx''
          (start (disk [(''in.csv'', Text csv_ragged)] []))))
       = [''Error converting file: malformed row'']
   \<and> fst (csv_to_excel spec_pandas ''in.csv'' ''out.xlsx''
          (start (disk [(''in.csv'', Text csv_ab)] [''out.xlsx'']))) = Inr False
   \<and> stdout (snd (csv_to_excel spec_pandas ''in.csv'' ''out.xlsx''
          (start (disk [(''in.csv'', Text csv_ab)] [''out.xlsx'']))))
       = [''Error converting file: permission denied: out.xlsx'']"
proof -
  let ?s1 = "start (disk [(''in.csv'', Text csv_ragged)] []) :: (fsys, string) state"
  let ?s2 = "start (disk [(''in.csv'', Text csv_ab)] [''out.xlsx'']) :: (fsys, string) state"
  let ?df = "\<lparr>columns = [''a'', ''b''], rows = [[''1'', ''2''], [''3'', ''4'']]\<rparr>"
  have p1: "path_exists spec_pandas (world ?s1) ''in.csv''
            \<and> read_csv spec_pandas (world ?s1) ''in.csv'' = Inl ''malformed row''"
    by (simp add: spec_defs csv_ragged_def)
  have p2: "path_exists spec_pandas (world ?s2) ''in.csv''
            \<and> read_csv spec_pandas (world ?s2) ''in.csv'' = Inr ?df
            \<and> snd (to_excel spec_pandas ?df ''out.xlsx'' False (world ?s2))
                = Some ''permission denied: out.xlsx''"
    by (simp add: spec_defs csv_ab_def)
  from exceptions_are_caught [of spec_pandas "''in.csv''" "''out.xlsx''" ?s1 "''malformed row''"] p1
  have r1: "fst (csv_to_excel spec_pandas ''in.csv'' ''out.xlsx'' ?s1) = Inr False
            \<and> stdout (snd (csv_to_excel spec_pandas ''in.csv'' ''out.xlsx'' ?s1))
                = stdout ?s1 @ [''Error converting file: '' @ ''malformed row'']"
    by blast
  from exceptions_are_caught [of spec_pandas "''in.csv''" "''out.xlsx''" ?s2
      "''permission denied: out.xlsx''" ?df] p2
  have r2: "fst (csv_to_excel spec_pandas ''in.csv'' ''out.xlsx'' ?s2) = Inr False
            \<and> stdout (snd (csv_to_excel spec_pandas ''in.csv'' ''out.xlsx'' ?s2))
                = stdout ?s2 @ [''Error converting file: '' @ ''permission denied: out.xlsx'']"
    by blast
  from r1 r2 show ?thesis
    by (simp add: start_def)
qed

text \<open>
  C4. With an argument count other than two (\<^verbatim>\<open>len(sys.argv) != 3\<close>) the converter script
  prints the usage line and exits with status 1; it makes no call into the environment
  and leaves the world as it was. With two arguments it runs the conversion once; the
  exit status is 0 when the conversion returns \<open>True\<close> and 1 otherwise.
\<close>

theorem converter_exit_status:
  "(length argv \<noteq> 3 \<longrightarrow>
      csv_to_excel_main L argv s =
        (1, s\<lparr>stdout := stdout s @ [''Usage: python csv_to_excel.py <input.csv> <output.xlsx>'']\<rparr>))
   \<and> csv_to_excel_main L [prog, csv_file, excel_file] s =
        ((if fst (csv_to_excel L csv_file excel_file s) = Inr True then 0 else 1),
         snd (csv_to_excel L csv_file excel_file s))"
proof -
  obtain b where "fst (csv_to_excel L csv_file excel_file s) = Inr b"
    using csv_to_excel_returns by blast
  then show ?thesis
    by (cases "csv_to_excel L csv_file excel_file s")
       (simp add: csv_to_excel_main_def py_print_def)
qed

theorem converter_exit_status_witness:
  "length [''csv_to_excel.py'', ''in.csv''] \<noteq> 3
   \<and> csv_to_excel_main spec_pandas [''csv_to_excel.py'', ''in.csv'']
        (start (disk [(''in.csv'', Text csv_ab)] [])) =
        (1, \<lparr>world = disk [(''in.csv'', Text csv_ab)] [],
             stdout = [''Usage: python csv_to_excel.py <input.csv> <output.xlsx>''],
             calls = []\<rparr>)
   \<and> fst (csv_to_excel_main spec_pandas [''csv_to_excel.py'', ''in.csv'', ''out.xlsx'']
        (start (disk [(''in.csv'', Text csv_ab)] []))) = 0
   \<and> fst (csv_to_excel_main spec_pandas [''csv_to_excel.py'', ''in.csv'', ''out.xlsx'']
        (start (disk [(''in.csv'', Text csv_ragged)] []))) = 1"
proof -
  let ?s = "start (disk [(''in.csv'', Text csv_ab)] []) :: (fsys, string) state"
  let ?s' = "start (disk [(''in.csv'', Text csv_ragged)] []) :: (fsys, string) state"
  have h: "length [''csv_to_excel.py'', ''in.csv''] \<noteq> 3"
    by simp
  have ok: "fst (csv_to_excel spec_pandas ''in.csv'' ''out.xlsx'' ?s) = Inr True"
    by (simp add: csv_to_excel_cases spec_defs csv_ab_def)
  have bad: "fst (csv_to_excel spec_pandas ''in.csv'' ''out.xlsx'' ?s') = Inr False"
    by (simp add: csv_to_excel_cases spec_defs csv_ragged_def)
  from converter_exit_status [of "[''csv_to_excel.py'', ''in.csv'']" spec_pandas ?s] h
  have r1: "csv_to_excel_main spec_pandas [''csv_to_excel.py'', ''in.csv''] ?s =
        (1, ?s\<lparr>stdout := stdout ?s @ [''Usage: python csv_to_excel.py <input.csv> <output.xlsx>'']\<rparr>)"
    by blast
  from converter_exit_status [of _ spec_pandas ?s "''csv_to_excel.py''" "''in.csv''" "''out.xlsx''"] ok
  have r2: "fst (csv_to_excel_main spec_pandas [''csv_to_excel.py'', ''in.csv'', ''out.xlsx''] ?s) = 0"
    by simp
  from converter_exit_status [of _ spec_pandas ?s' "''csv_to_excel.py''" "''in.csv''" "''out.xlsx''"] bad
  have r3: "fst (csv_to_excel_main spec_pandas [''csv_to_excel.py'', ''in.csv'', ''out.xlsx''] ?s') = 1"
    by simp
  from h r1 r2 r3 show ?thesis
    by (simp add: start_def)
qed

text \<open>
  C8. Whatever the input, every write the converter performs hands to the writer the
  very frame the parser returned: the same column names, each in its place and none
  renamed, added or dropped, and the same rows in the same order. The write goes to the
  output path and asks for no index column (\<^verbatim>\<open>index=False\<close>).
\<close>

theorem written_frame_is_parsed_frame:
  assumes "calls (snd (csv_to_excel L csv_file excel_file s)) = calls s @ cs"
      and "ToExcel f p index \<in> set cs"
  shows "read_csv L (world s) csv_file = Inr f \<and> p = excel_file \<and> index = False"
  using assms
  by (auto simp add: csv_to_excel_cases split: if_splits sum.splits option.splits prod.splits)

theorem written_frame_is_parsed_frame_witness:
  "calls (snd (csv_to_excel spec_pandas ''in.csv'' ''out.xlsx''
       (start (disk [(''in.csv'', Text csv_ab)] [])))) =
     [Exists ''in.csv'', ReadCsv ''in.csv'',
      ToExcel \<lparr>columns = [''a'', ''b''], rows = [[''1'', ''2''], [''3'', ''4'']]\<rparr> ''out.xlsx'' False]
   \<and> read_csv spec_pandas (disk [(''in.csv'', Text csv_ab)] []) ''in.csv''
       = Inr \<lparr>columns = [''a'', ''b''], rows = [[''1'', ''2''], [''3'', ''4'']]\<rparr>"
proof -
  let ?s = "start (disk [(''in.csv'', Text csv_ab)] []) :: (fsys, string) state"
  let ?df = "\<lparr>columns = [''a'', ''b''], rows = [[''1'', ''2''], [''3'', ''4'']]\<rparr>"
  let ?cs = "[Exists ''in.csv'', ReadCsv ''in.csv'', ToExcel ?df ''out.xlsx'' False]"
  have h1: "calls (snd (csv_to_excel spec_pandas ''in.csv'' ''out.xlsx'' ?s)) = calls ?s @ ?cs"
    by (simp add: csv_to_excel_cases spec_defs csv_ab_def)
  have h2: "ToExcel ?df ''out.xlsx'' False \<in> set ?cs"
    by simp
  from written_frame_is_parsed_frame [OF h1 h2] h1 show ?thesis
    by (simp add: start_def)
qed

text \<open>
  C9. When the input exists and the parse step fails, the converter returns failure and
  the calls it has made are the existence test and the read: the writer is never called,
  and the world is as it was.
\<close>

theorem parse_failure_skips_write:
  assumes "path_exists L (world s) csv_file" and "read_csv L (world s) csv_file = Inl e"
  shows "csv_to_excel L csv_file excel_file s =
           (Inr False,
            s\<lparr>stdout := stdout s @ [''Error converting file: '' @ e],
              calls := calls s @ [Exists csv_file, ReadCsv csv_file]\<rparr>)
         \<and> world (snd (csv_to_excel L csv_file excel_file s)) = world s"
  using assms by (simp add: csv_to_excel_cases)

theorem parse_failure_skips_write_witness:
  "path_exists spec_pandas (disk [(''in.csv'', Text csv_ragged)] []) ''in.csv''
   \<and> read_csv spec_pandas (disk [(''in.csv'', Text csv_ragged)] []) ''in.csv''
        = Inl ''malformed row''
   \<and> csv_to_excel spec_pandas ''in.csv'' ''out.xlsx'' (start (disk [(''in.csv'', Text csv_ragged)] [])) =
       (Inr False,
        \<lparr>world = disk [(''in.csv'', Text csv_ragged)] [],
         stdout = [''Error converting file: malformed row''],
         calls = [Exists ''in.csv'', ReadCsv ''in.csv'']\<rparr>)"
proof -
  let ?s = "start (disk [(''in.csv'', Text csv_ragged)] []) :: (fsys, string) state"
  have h1: "path_exists spec_pandas (world ?s) ''in.csv''"
    by (simp add: spec_defs)
  have h2: "read_csv spec_pandas (world ?s) ''in.csv'' = Inl ''malformed row''"
    by (simp add: spec_defs csv_ragged_def)
  show ?thesis
    using h1 h2 parse_failure_skips_write [OF h1 h2, of "''out.xlsx''"]
    by (simp add: start_def)
qed

section \<open>The reference environment: what is written can be read\<close>

lemma split_on_no_separator: "c \<notin> set w \<Longrightarrow> split_on c w = [w]"
  by (induction w) auto

lemma split_on_field: "c \<notin> set w \<Longrightarrow> split_on c (w @ c # r) = w # split_on c r"
  by (induction w) auto

lemma split_on_join:
  "ws \<noteq> [] \<Longrightarrow> \<forall>w \<in> set ws. c \<notin> set w \<Longrightarrow> split_on c (join c ws) = ws"
  by (induction c ws rule: join.induct) (simp_all add: split_on_no_separator split_on_field)

lemma split_on_lines:
  "\<forall>l \<in> set ls. c \<notin> set l \<Longrightarrow> split_on c (concat (map (\<lambda>l. l @ [c]) ls)) = ls @ [[]]"
  by (induction ls) (simp_all add: split_on_field)

lemma text_lines_terminated:
  "\<forall>l \<in> set ls. newline \<notin> set l \<Longrightarrow> text_lines (concat (map (\<lambda>l. l @ [newline]) ls)) = ls"
  by (simp add: text_lines_def split_on_lines)

lemma join_free:
  "d \<noteq> c \<Longrightarrow> \<forall>w \<in> set ws. d \<notin> set w \<Longrightarrow> d \<notin> set (join c ws)"
  by (induction c ws rule: join.induct) auto

lemma csv_text_lines:
  assumes "\<forall>r \<in> set (header # data). \<forall>w \<in> set r. newline \<notin> set w"
  shows "text_lines (csv_text header data) = map (join comma) (header # data)"
proof -
  have ne: "newline \<noteq> comma"
    by (simp add: newline_def comma_def)
  have "newline \<notin> set (join comma r)" if "r \<in> set (header # data)" for r
    using that assms by (intro join_free [OF ne]) auto
  then have "\<forall>l \<in> set (map (join comma) (header # data)). newline \<notin> set l"
    by auto
  then have "text_lines (concat (map (\<lambda>l. l @ [newline]) (map (join comma) (header # data))))
               = map (join comma) (header # data)"
    by (rule text_lines_terminated)
  then show ?thesis
    by (simp add: csv_text_def comp_def)
qed

lemma parse_csv_text:
  assumes "header \<noteq> []"
      and "\<forall>r \<in> set data. length r = length header"
      and "\<forall>r \<in> set (header # data). \<forall>w \<in> set r. newline \<notin> set w \<and> comma \<notin> set w"
  shows "parse_csv (csv_text header data) = Inr \<lparr>columns = header, rows = data\<rparr>"
proof -
  have lines: "text_lines (csv_text header data) = join comma header # map (join comma) data"
    using assms(3) by (simp add: csv_text_lines)
  have hd: "split_on comma (join comma header) = header"
    using assms(1,3) by (simp add: split_on_join)
  have "r \<noteq> []" if "r \<in> set data" for r
    using that assms(1,2) by auto
  then have row: "\<forall>r \<in> set data. split_on comma (join comma r) = r"
    using assms(3) by (simp add: split_on_join)
  then have rs: "map (\<lambda>r. split_on comma (join comma r)) data = data"
    by (simp add: map_idI)
  show ?thesis
    using assms(2) row by (simp add: parse_csv_def lines hd rs list_all_iff comp_def)
qed

lemma read_written_workbook:
  assumes "writable fs p"
  shows "spec_read_excel (fst (spec_to_excel df p False fs)) p = Inr df"
  using assms
  by (simp add: spec_to_excel_def spec_read_excel_def sheet_of_def frame_of_sheet_def)

lemma convert_parsed_csv:
  assumes "files fs csv_file = Some (Text t)"
      and "parse_csv t = Inr df"
      and "writable fs excel_file"
  shows "csv_to_excel spec_pandas csv_file excel_file (start fs) =
           (Inr True,
            \<lparr>world = fst (spec_to_excel df excel_file False fs),
             stdout = [''Successfully converted '' @ csv_file @ '' to '' @ excel_file],
             calls = [Exists csv_file, ReadCsv csv_file, ToExcel df excel_file False]\<rparr>)"
proof -
  have "spec_read_csv fs csv_file = Inr df"
    using assms(1,2) by (simp add: spec_read_csv_def)
  then show ?thesis
    using assms(1,3)
    by (simp add: csv_to_excel_cases spec_pandas_def start_def spec_to_excel_def)
qed

lemma inspect_converted:
  assumes "writable fs excel_file"
  shows "test_excel_file spec_pandas excel_file
           (start (fst (spec_to_excel df excel_file False fs))) =
           (Inr True,
            \<lparr>world = fst (spec_to_excel df excel_file False fs),
             stdout =
               [''File read successfully!'',
                ''Shape: ('' @ str_nat (length (rows df)) @ '', ''
                   @ str_nat (length (columns df)) @ '')'',
                ''Columns:'']
               @ map (\<lambda>col. ''  - '' @ col) (columns df)
               @ [newline # ''First 5 rows:'', spec_render (df\<lparr>rows := take 5 (rows df)\<rparr>)],
             calls = [ReadExcel excel_file]\<rparr>)"
  using read_written_workbook [OF assms, of df]
  by (simp add: test_excel_file_cases str_shape_def shape_def head_def start_def
      spec_pandas_def)

section \<open>The inspector\<close>

text \<open>
  C5. When the read step returns a frame, the inspector prints, in this order, the
  confirmation line, the shape as (row count, column count), the heading of the column
  list and every column name on a line of its own in the order of the frame, the heading
  of the rows and the rendering of the first five rows (\<open>take 5\<close>: all rows when there are
  fewer than five); it prints nothing else and returns \<open>True\<close>.
\<close>

theorem inspector_prints_summary:
  assumes "read_excel L (world s) file_path = Inr df"
  shows "test_excel_file L file_path s =
           (Inr True,
            s\<lparr>stdout := stdout s @
                [''File read successfully!'',
                 ''Shape: ('' @ str_nat (length (rows df)) @ '', ''
                    @ str_nat (length (columns df)) @ '')'',
                 ''Columns:'']
                @ map (\<lambda>col. ''  - '' @ col) (columns df)
                @ [newline # ''First 5 rows:'',
                   render L (df\<lparr>rows := take 5 (rows df)\<rparr>)],
              calls := calls s @ [ReadExcel file_path]\<rparr>)"
  using assms by (simp add: test_excel_file_cases str_shape_def shape_def head_def)

theorem inspector_prints_summary_witness:
  "read_excel spec_pandas (disk [(''out.xlsx'', Workbook book_ab)] []) ''out.xlsx''
     = Inr \<lparr>columns = [''a'', ''b''], rows = tl book_ab\<rparr>
   \<and> test_excel_file spec_pandas ''out.xlsx'' (start (disk [(''out.xlsx'', Workbook book_ab)] [])) =
       (Inr True,
        \<lparr>world = disk [(''out.xlsx'', Workbook book_ab)] [],
         stdout =
           [''File read successfully!'', ''Shape: (6, 2)'', ''Columns:'', ''  - a'', ''  - b'',
            newline # ''First 5 rows:'',
            ''a b'' @ [newline] @ ''1 2'' @ [newline] @ ''3 4'' @ [newline] @ ''5 6''
              @ [newline] @ ''7 8'' @ [newline] @ ''9 10''],
         calls = [ReadExcel ''out.xlsx'']\<rparr>)"
proof -
  let ?s = "start (disk [(''out.xlsx'', Workbook book_ab)] []) :: (fsys, string) state"
  let ?df = "\<lparr>columns = [''a'', ''b''], rows = tl book_ab\<rparr>"
  have h: "read_excel spec_pandas (world ?s) ''out.xlsx'' = Inr ?df"
    by (simp add: spec_defs book_ab_def)
  show ?thesis
    using h inspector_prints_summary [OF h]
    by (simp add: spec_defs book_ab_def str_nat.simps)
qed

text \<open>
  C6. When the read step fails, the inspector catches the exception, prints one line
  that carries its message and nothing else (no confirmation, shape, column list or
  rows), and returns \<open>False\<close>; the script then exits with status 1.
\<close>

theorem inspector_read_failure:
  assumes "read_excel L (world s) file_path = Inl e"
  shows "test_excel_file L file_path s =
           (Inr False,
            s\<lparr>stdout := stdout s @ [''Error reading file: '' @ e],
              calls := calls s @ [ReadExcel file_path]\<rparr>)
         \<and> test_excel_main L [prog, file_path] s =
           (1,
            s\<lparr>stdout := stdout s @ [''Error reading file: '' @ e],
              calls := calls s @ [ReadExcel file_path]\<rparr>)"
  using assms by (simp add: test_excel_main_def test_excel_file_cases)

theorem inspector_read_failure_witness:
  "read_excel spec_pandas (disk [(''in.csv'', Text csv_ab)] []) ''out.xlsx''
     = Inl ''no such file: out.xlsx''
   \<and> read_excel spec_pandas (disk [(''in.csv'', Text csv_ab)] []) ''in.csv''
     = Inl ''not a workbook''
   \<and> test_excel_main spec_pandas [''test_excel.py'', ''out.xlsx'']
        (start (disk [(''in.csv'', Text csv_ab)] [])) =
       (1,
        \<lparr>world = disk [(''in.csv'', Text csv_ab)] [],
         stdout = [''Error reading file: no such file: out.xlsx''],
         calls = [ReadExcel ''out.xlsx'']\<rparr>)
   \<and> test_excel_main spec_pandas [''test_excel.py'', ''in.csv'']
        (start (disk [(''in.csv'', Text csv_ab)] [])) =
       (1,
        \<lparr>world = disk [(''in.csv'', Text csv_ab)] [],
         stdout = [''Error reading file: not a workbook''],
         calls = [ReadExcel ''in.csv'']\<rparr>)"
proof -
  let ?s = "start (disk [(''in.csv'', Text csv_ab)] []) :: (fsys, string) state"
  have h1: "read_excel spec_pandas (world ?s) ''out.xlsx'' = Inl ''no such file: out.xlsx''"
    by (simp add: spec_defs)
  have h2: "read_excel spec_pandas (world ?s) ''in.csv'' = Inl ''not a workbook''"
    by (simp add: spec_defs)
  show ?thesis
    using h1 h2
      inspector_read_failure [OF h1, of "''test_excel.py''"]
      inspector_read_failure [OF h2, of "''test_excel.py''"]
    by (simp add: start_def)
qed

section \<open>Converting, then inspecting\<close>

text \<open>
  C1. In the reference environment, take a table with a header of at least one column
  and \<open>N\<close> data rows, each with as many fields as the header, no field containing a
  comma or a line terminator, stored as comma-separated text. Converting it to a
  writable path succeeds, and inspecting the workbook written there succeeds and prints
  the shape \<open>(N, number of columns)\<close> and, as the list of column names, the header of the
  table in the same order.
\<close>

theorem convert_then_inspect_reports_source_shape:
  assumes "files fs csv_file = Some (Text (csv_text header data))"
      and "header \<noteq> []"
      and "list_all (\<lambda>r. length r = length header) data"
      and "list_all (list_all (\<lambda>w. newline \<notin> set w \<and> comma \<notin> set w)) (header # data)"
      and "writable fs excel_file"
  shows "fst (csv_to_excel spec_pandas csv_file excel_file (start fs)) = Inr True
         \<and> fst (test_excel_file spec_pandas excel_file
                 (start (world (snd (csv_to_excel spec_pandas csv_file excel_file (start fs))))))
             = Inr True
         \<and> stdout (snd (test_excel_file spec_pandas excel_file
                 (start (world (snd (csv_to_excel spec_pandas csv_file excel_file (start fs)))))))
             = [''File read successfully!'',
                ''Shape: ('' @ str_nat (length data) @ '', '' @ str_nat (length header) @ '')'',
                ''Columns:'']
               @ map (\<lambda>col. ''  - '' @ col) header
               @ [newline # ''First 5 rows:'',
                  spec_render \<lparr>columns = header, rows = take 5 data\<rparr>]"
proof -
  let ?df = "\<lparr>columns = header, rows = data\<rparr>"
  have "parse_csv (csv_text header data) = Inr ?df"
    using assms(2,3,4) by (intro parse_csv_text) (auto simp add: list_all_iff)
  with assms(1) have conv: "csv_to_excel spec_pandas csv_file excel_file (start fs) =
           (Inr True,
            \<lparr>world = fst (spec_to_excel ?df excel_file False fs),
             stdout = [''Successfully converted '' @ csv_file @ '' to '' @ excel_file],
             calls = [Exists csv_file, ReadCsv csv_file, ToExcel ?df excel_file False]\<rparr>)"
    using assms(5) by (rule convert_parsed_csv)
  show ?thesis
    unfolding conv by (simp add: inspect_converted [OF assms(5)])
qed

theorem convert_then_inspect_reports_source_shape_witness:
  "files (disk [(''in.csv'', Text (csv_text [''a'', ''b''] [[''1'', ''2''], [''3'', ''4'']]))] [])
      ''in.csv'' = Some (Text (csv_text [''a'', ''b''] [[''1'', ''2''], [''3'', ''4'']]))
   \<and> csv_text [''a'', ''b''] [[''1'', ''2''], [''3'', ''4'']] = csv_ab
   \<and> list_all (\<lambda>r. length r = length [''a'', ''b'']) [[''1'', ''2''], [''3'', ''4'']]
   \<and> list_all (list_all (\<lambda>w. newline \<notin> set w \<and> comma \<notin> set w))
        ([''a'', ''b''] # [[''1'', ''2''], [''3'', ''4'']])
   \<and> stdout (snd (test_excel_file spec_pandas ''out.xlsx''
         (start (world (snd (csv_to_excel spec_pandas ''in.csv'' ''out.xlsx''
            (start (disk [(''in.csv'',
               Text (csv_text [''a'', ''b''] [[''1'', ''2''], [''3'', ''4'']]))] []))))))))
       = [''File read successfully!'', ''Shape: (2, 2)'', ''Columns:'', ''  - a'', ''  - b'',
          newline # ''First 5 rows:'',
          ''a b'' @ [newline] @ ''1 2'' @ [newline] @ ''3 4'']"
proof -
  let ?t = "csv_text [''a'', ''b''] [[''1'', ''2''], [''3'', ''4'']]"
  let ?fs = "disk [(''in.csv'', Text ?t)] []"
  have h1: "files ?fs ''in.csv'' = Some (Text ?t)"
    by (simp add: disk_def)
  have h2: "[''a'', ''b''] \<noteq> []"
    by simp
  have h3: "list_all (\<lambda>r. length r = length [''a'', ''b'']) [[''1'', ''2''], [''3'', ''4'']]"
    by simp
  have h4: "list_all (list_all (\<lambda>w. newline \<notin> set w \<and> comma \<notin> set w))
              ([''a'', ''b''] # [[''1'', ''2''], [''3'', ''4'']])"
    by (simp add: newline_def comma_def)
  have h5: "writable ?fs ''out.xlsx''"
    by (simp add: disk_def)
  have t: "?t = csv_ab"
    by (simp add: csv_text_def csv_ab_def comma_def)
  show ?thesis
    using h1 h3 h4 t convert_then_inspect_reports_source_shape [OF h1 h2 h3 h4 h5]
    by (simp add: spec_render_def space_def newline_def str_nat.simps)
qed

text \<open>
  C7. In the reference environment, a text whose only line is a header converts
  successfully to a writable path, and the workbook written there parses to a frame of
  shape \<open>(0, number of header fields)\<close>.
\<close>

theorem header_only_csv_converts:
  assumes "files fs csv_file = Some (Text t)"
      and "text_lines t = [h]"
      and "writable fs excel_file"
  shows "fst (csv_to_excel spec_pandas csv_file excel_file (start fs)) = Inr True
         \<and> read_excel spec_pandas
             (world (snd (csv_to_excel spec_pandas csv_file excel_file (start fs)))) excel_file
             = Inr \<lparr>columns = split_on comma h, rows = []\<rparr>
         \<and> shape \<lparr>columns = split_on comma h, rows = [] :: string list list\<rparr>
             = (0, length (split_on comma h))"
proof -
  let ?df = "\<lparr>columns = split_on comma h, rows = [] :: string list list\<rparr>"
  have "parse_csv t = Inr ?df"
    using assms(2) by (simp add: parse_csv_def)
  with assms(1) have conv: "csv_to_excel spec_pandas csv_file excel_file (start fs) =
           (Inr True,
            \<lparr>world = fst (spec_to_excel ?df excel_file False fs),
             stdout = [''Successfully converted '' @ csv_file @ '' to '' @ excel_file],
             calls = [Exists csv_file, ReadCsv csv_file, ToExcel ?df excel_file False]\<rparr>)"
    using assms(3) by (rule convert_parsed_csv)
  show ?thesis
    unfolding conv
    using read_written_workbook [OF assms(3)]
    by (simp add: spec_pandas_def shape_def)
qed

theorem header_only_csv_converts_witness:
  "files (disk [(''in.csv'', Text csv_header_only)] []) ''in.csv'' = Some (Text csv_header_only)
   \<and> text_lines csv_header_only = [''id,name,status'']
   \<and> writable (disk [(''in.csv'', Text csv_header_only)] []) ''out.xlsx''
   \<and> fst (csv_to_excel spec_pandas ''in.csv'' ''out.xlsx''
        (start (disk [(''in.csv'', Text csv_header_only)] []))) = Inr True
   \<and> read_excel spec_pandas
        (world (snd (csv_to_excel spec_pandas ''in.csv'' ''out.xlsx''
           (start (disk [(''in.csv'', Text csv_header_only)] []))))) ''out.xlsx''
       = Inr \<lparr>columns = [''id'', ''name'', ''status''], rows = []\<rparr>
   \<and> shape \<lparr>columns = [''id'', ''name'', ''status''], rows = [] :: string list list\<rparr> = (0, 3)"
proof -
  let ?fs = "disk [(''in.csv'', Text csv_header_only)] []"
  have h1: "files ?fs ''in.csv'' = Some (Text csv_header_only)"
    by (simp add: disk_def)
  have h2: "text_lines csv_header_only = [''id,name,status'']"
    by (simp add: text_lines_def csv_header_only_def newline_def)
  have h3: "writable ?fs ''out.xlsx''"
    by (simp add: disk_def)
  have f: "split_on comma ''id,name,status'' = [''id'', ''name'', ''status'']"
    by (simp add: comma_def)
  show ?thesis
    using h1 h2 h3 header_only_csv_converts [OF h1 h2 h3, unfolded f]
    by (simp add: shape_def)
qed

end
